theory Spec2Isabelle
  imports Main "HOL-Library.Word"
begin

section \<open>Byte-addressed memory\<close>

text \<open>
  \<^verbatim>\<open>barrier.h\<close> accesses a shared word through a pointer cast to the type of one of the
  macro's operands. The width of the access is therefore part of what the code does, so
  memory is modelled byte by byte: an address is a natural number, a value of a \<open>w\<close>-bit
  C integer (or pointer) type is a \<open>w word\<close>, and it occupies \<open>sizeof\<close> consecutive bytes,
  least significant byte first (the header's instruction sequences are those of x86).
\<close>

type_synonym byte = "8 word"
type_synonym addr = nat

definition sizeof :: "'a::len itself \<Rightarrow> nat" where
  "sizeof t = (LENGTH('a) + 7) div 8"

definition to_bytes :: "'a::len word \<Rightarrow> byte list" where
  "to_bytes v = map (\<lambda>i. ucast (drop_bit (8 * i) v)) [0..<sizeof TYPE('a)]"

definition from_bytes :: "byte list \<Rightarrow> 'a::len word" where
  "from_bytes bs = word_of_int (horner_sum uint (2 ^ 8) bs)"

fun store_bytes :: "addr \<Rightarrow> byte list \<Rightarrow> (addr \<Rightarrow> byte) \<Rightarrow> (addr \<Rightarrow> byte)" where
  "store_bytes a [] m = m"
| "store_bytes a (b # bs) m = store_bytes (Suc a) bs (m(a := b))"

fun load_bytes :: "addr \<Rightarrow> nat \<Rightarrow> (addr \<Rightarrow> byte) \<Rightarrow> byte list" where
  "load_bytes a 0 m = []"
| "load_bytes a (Suc n) m = m a # load_bytes (Suc a) n m"


section \<open>Machine state and the program-order log\<close>

text \<open>
  The inline assembly of the header: each \<^verbatim>\<open>asm volatile\<close> statement has a template (the
  instructions it emits, none for the empty string) and a clobber list. The only
  instruction with an operand is \<^verbatim>\<open>lock; addl $imm, disp(%reg)\<close>.
\<close>

datatype reg = ESP | RSP

datatype insn = Mfence | Lfence | Sfence | LockAddl "32 word" int reg

datatype clobber = Memory | CC

record asm_stmt =
  template :: "insn list"
  clobbers :: "clobber list"

text \<open>The \<^verbatim>\<open>std::memory_order\<close> argument of the C++ atomics.\<close>

datatype memory_order =
  memory_order_relaxed | memory_order_consume | memory_order_acquire
  | memory_order_release | memory_order_acq_rel | memory_order_seq_cst

text \<open>
  What one execution context does, in program order: asm statements, accesses through a
  volatile lvalue (address and bytes written, or address and number of bytes read) and
  calls of the C++ atomics (with their ordering argument).
\<close>

datatype event =
  Asm asm_stmt
  | VolatileStore addr "byte list"
  | VolatileLoad addr nat
  | AtomicStore memory_order addr "byte list"
  | AtomicLoad memory_order addr nat

text \<open>The arithmetic flags, which \<^verbatim>\<open>addl\<close> rewrites (the \<^verbatim>\<open>"cc"\<close> clobber).\<close>

record flags =
  cf :: bool
  pf :: bool
  af :: bool
  zf :: bool
  sf :: bool
  ovf :: bool

record machine =
  mem :: "addr \<Rightarrow> byte"
  rsp :: "64 word"
  eflags :: flags
  trace :: "event list"

definition emit :: "event \<Rightarrow> machine \<Rightarrow> machine" where
  "emit e s = s\<lparr>trace := trace s @ [e]\<rparr>"

definition add_flags :: "32 word \<Rightarrow> 32 word \<Rightarrow> flags" where
  "add_flags a b =
     (let r = a + b in
      \<lparr>cf = (2 ^ 32 \<le> unat a + unat b),
       pf = even (length (filter (bit r) [0..<8])),
       af = (16 \<le> unat a mod 16 + unat b mod 16),
       zf = (r = 0),
       sf = bit r 31,
       ovf = (sint a + sint b \<noteq> sint r)\<rparr>)"

fun effective_address :: "int \<Rightarrow> reg \<Rightarrow> machine \<Rightarrow> addr" where
  "effective_address disp RSP s = unat (rsp s + word_of_int disp)"
| "effective_address disp ESP s = unat ((ucast (rsp s) :: 32 word) + word_of_int disp)"

fun exec_insn :: "insn \<Rightarrow> machine \<Rightarrow> machine" where
  "exec_insn Mfence s = s"
| "exec_insn Lfence s = s"
| "exec_insn Sfence s = s"
| "exec_insn (LockAddl imm disp r) s =
     (let ea = effective_address disp r s;
          old = (from_bytes (load_bytes ea 4 (mem s)) :: 32 word)
      in s\<lparr>mem := store_bytes ea (to_bytes (old + imm)) (mem s),
           eflags := add_flags old imm\<rparr>)"

definition asm_volatile :: "asm_stmt \<Rightarrow> machine \<Rightarrow> machine" where
  "asm_volatile a s = fold exec_insn (template a) (emit (Asm a) s)"

text \<open>
  An access through \<^verbatim>\<open>*(volatile T *)p\<close>: \<open>sizeof(T)\<close> bytes at \<open>p\<close>, where \<open>T\<close> is the
  word type \<^typ>\<open>'a word\<close> of the value stored or returned.
\<close>

definition volatile_store :: "addr \<Rightarrow> 'a::len word \<Rightarrow> machine \<Rightarrow> machine" where
  "volatile_store p v s =
     emit (VolatileStore p (to_bytes v)) (s\<lparr>mem := store_bytes p (to_bytes v) (mem s)\<rparr>)"

definition volatile_load :: "addr \<Rightarrow> machine \<Rightarrow> 'a::len word \<times> machine" where
  "volatile_load p s =
     (from_bytes (load_bytes p (sizeof TYPE('a)) (mem s)),
      emit (VolatileLoad p (sizeof TYPE('a))) s)"

text \<open>
  \<^verbatim>\<open>std::atomic_store_explicit\<close> and \<^verbatim>\<open>std::atomic_load_explicit\<close> on
  \<^verbatim>\<open>reinterpret_cast<std::atomic<T> *>(p)\<close>, as one execution context sees them: the
  object representation of \<open>T\<close> at \<open>p\<close> is written or read, and the call is logged with
  its ordering argument.
\<close>

definition atomic_store_explicit ::
  "addr \<Rightarrow> 'a::len word \<Rightarrow> memory_order \<Rightarrow> machine \<Rightarrow> machine" where
  "atomic_store_explicit p v ord s =
     emit (AtomicStore ord p (to_bytes v)) (s\<lparr>mem := store_bytes p (to_bytes v) (mem s)\<rparr>)"

definition atomic_load_explicit ::
  "addr \<Rightarrow> memory_order \<Rightarrow> machine \<Rightarrow> 'a::len word \<times> machine" where
  "atomic_load_explicit p ord s =
     (from_bytes (load_bytes p (sizeof TYPE('a)) (mem s)),
      emit (AtomicLoad ord p (sizeof TYPE('a))) s)"

text \<open>
  \<^verbatim>\<open>do body while (cond)\<close>: the body runs, then the condition decides whether it runs
  again. A loop that never leaves has the value \<open>None\<close>.
\<close>

partial_function (option) do_while ::
  "('s \<Rightarrow> 's) \<Rightarrow> ('s \<Rightarrow> bool) \<Rightarrow> 's \<Rightarrow> 's option" where
  "do_while body cond s =
     (let s' = body s in if cond s' then do_while body cond s' else Some s')"

declare do_while.simps [code]


section \<open>The native-atomics realization (\<^verbatim>\<open>#ifdef __cplusplus\<close>)\<close>

text \<open>
  The four templates take the shared word and the value at one type \<open>T\<close>; a reference
  \<^verbatim>\<open>T &var\<close> is the address of the word.
\<close>

definition IO_URING_WRITE_ONCE_cxx :: "addr \<Rightarrow> 'a::len word \<Rightarrow> machine \<Rightarrow> machine" where
  "IO_URING_WRITE_ONCE_cxx var val s = atomic_store_explicit var val memory_order_relaxed s"

definition IO_URING_READ_ONCE_cxx :: "addr \<Rightarrow> machine \<Rightarrow> 'a::len word \<times> machine" where
  "IO_URING_READ_ONCE_cxx var s = atomic_load_explicit var memory_order_relaxed s"

definition io_uring_smp_store_release_cxx ::
  "addr \<Rightarrow> 'a::len word \<Rightarrow> machine \<Rightarrow> machine" where
  "io_uring_smp_store_release_cxx p v s = atomic_store_explicit p v memory_order_release s"

definition io_uring_smp_load_acquire_cxx :: "addr \<Rightarrow> machine \<Rightarrow> 'a::len word \<times> machine" where
  "io_uring_smp_load_acquire_cxx p s = atomic_load_explicit p memory_order_acquire s"


section \<open>The manual realization (\<^verbatim>\<open>#else\<close>)\<close>

definition io_uring_barrier :: "machine \<Rightarrow> machine" where
  "io_uring_barrier = asm_volatile \<lparr>template = [], clobbers = [Memory]\<rparr>"

text \<open>
  \<^verbatim>\<open>IO_URING_WRITE_ONCE(var, val)\<close> stores through \<^verbatim>\<open>(volatile __typeof(val) *)(&(var))\<close>:
  the address is that of \<open>var\<close>, the width that of the type of \<open>val\<close>.
  \<^verbatim>\<open>IO_URING_READ_ONCE(var)\<close> loads through \<^verbatim>\<open>(volatile __typeof(var) *)(&(var))\<close>.
\<close>

definition IO_URING_WRITE_ONCE_c :: "addr \<Rightarrow> 'a::len word \<Rightarrow> machine \<Rightarrow> machine" where
  "IO_URING_WRITE_ONCE_c var val s = volatile_store var val s"

definition IO_URING_READ_ONCE_c :: "addr \<Rightarrow> machine \<Rightarrow> 'a::len word \<times> machine" where
  "IO_URING_READ_ONCE_c var s = volatile_load var s"

definition io_uring_mb :: "machine \<Rightarrow> machine" where
  "io_uring_mb = asm_volatile \<lparr>template = [Mfence], clobbers = [Memory]\<rparr>"

definition io_uring_rmb :: "machine \<Rightarrow> machine" where
  "io_uring_rmb = asm_volatile \<lparr>template = [Lfence], clobbers = [Memory]\<rparr>"

definition io_uring_wmb :: "machine \<Rightarrow> machine" where
  "io_uring_wmb = asm_volatile \<lparr>template = [Sfence], clobbers = [Memory]\<rparr>"

definition io_uring_smp_rmb :: "machine \<Rightarrow> machine" where
  "io_uring_smp_rmb = io_uring_barrier"

definition io_uring_smp_wmb :: "machine \<Rightarrow> machine" where
  "io_uring_smp_wmb = io_uring_barrier"

text \<open>The argument is the build-time test \<^verbatim>\<open>defined(__i386__)\<close>.\<close>

definition io_uring_smp_mb :: "bool \<Rightarrow> machine \<Rightarrow> machine" where
  "io_uring_smp_mb i386 =
     (if i386 then asm_volatile \<lparr>template = [LockAddl 0 0 ESP], clobbers = [Memory, CC]\<rparr>
      else asm_volatile \<lparr>template = [LockAddl 0 (- 132) RSP], clobbers = [Memory, CC]\<rparr>)"

definition io_uring_smp_store_release_c ::
  "addr \<Rightarrow> 'a::len word \<Rightarrow> machine \<Rightarrow> machine option" where
  "io_uring_smp_store_release_c p v s =
     do_while (\<lambda>s. IO_URING_WRITE_ONCE_c p v (io_uring_barrier s)) (\<lambda>s. (0::int) \<noteq> 0) s"

definition io_uring_smp_load_acquire_c :: "addr \<Rightarrow> machine \<Rightarrow> 'a::len word \<times> machine" where
  "io_uring_smp_load_acquire_c p s =
     (let (p1, s1) = IO_URING_READ_ONCE_c p s;
          s2 = io_uring_barrier s1
      in (p1, s2))"

text \<open>
  The fence instructions an event puts into the instruction stream. A volatile access and
  an asm statement with an empty template put none there.
\<close>

fun fence_insns :: "event \<Rightarrow> insn list" where
  "fence_insns (Asm a) = template a"
| "fence_insns (VolatileStore p bs) = []"
| "fence_insns (VolatileLoad p n) = []"
| "fence_insns (AtomicStore ord p bs) = []"
| "fence_insns (AtomicLoad ord p n) = []"


section \<open>A concrete machine state\<close>

text \<open>Zeroed memory, an empty log, the stack pointer at 4096.\<close>

definition machine0 :: machine where
  "machine0 =
     \<lparr>mem = (\<lambda>a. 0), rsp = 4096,
      eflags = \<lparr>cf = False, pf = False, af = False, zf = False, sf = False, ovf = False\<rparr>,
      trace = []\<rparr>"


section \<open>Bytes of a word\<close>

lemma length_to_bytes: "length (to_bytes (v::'a::len word)) = sizeof TYPE('a)"
  by (simp add: to_bytes_def)

lemma bit_from_bytes:
  "bit (from_bytes bs :: 'a::len word) n \<longleftrightarrow>
     n < LENGTH('a) \<and> n div 8 < length bs \<and> bit (bs ! (n div 8)) (n mod 8)"
  using bit_horner_sum_uint_exp_iff [where ?'a = 8, of bs n]
  by (simp add: from_bytes_def bit_word_of_int_iff)

text \<open>Splitting a word into its bytes and reassembling them gives the word back.\<close>

lemma from_bytes_to_bytes: "from_bytes (to_bytes v) = (v :: 'a::len word)"
proof (rule bit_word_eqI)
  fix n assume n: "n < LENGTH('a)"
  then have d: "n div 8 < sizeof TYPE('a)"
    by (simp add: sizeof_def)
  show "bit (from_bytes (to_bytes v) :: 'a word) n \<longleftrightarrow> bit v n"
    using n d
    by (simp add: bit_from_bytes length_to_bytes to_bytes_def bit_ucast_iff bit_drop_bit_eq)
qed

text \<open>Conversely, for a type made of whole bytes.\<close>

lemma to_bytes_from_bytes:
  assumes "length bs = sizeof TYPE('a::len)" and "8 dvd LENGTH('a)"
  shows "to_bytes (from_bytes bs :: 'a word) = bs"
proof (rule nth_equalityI)
  show "length (to_bytes (from_bytes bs :: 'a word)) = length bs"
    using assms by (simp add: length_to_bytes)
next
  fix i assume "i < length (to_bytes (from_bytes bs :: 'a word))"
  then have i: "i < sizeof TYPE('a)" by (simp add: length_to_bytes)
  from assms(2) obtain k where k: "LENGTH('a) = 8 * k" by (auto elim: dvdE)
  then have sz: "sizeof TYPE('a) = k" by (simp add: sizeof_def)
  show "to_bytes (from_bytes bs :: 'a word) ! i = bs ! i"
  proof (rule bit_word_eqI)
    fix n assume n: "n < LENGTH(8)"
    then have n8: "n < 8" by simp
    with i sz k have lt: "8 * i + n < LENGTH('a)" by simp
    have dv: "(8 * i + n) div 8 = i" "(8 * i + n) mod 8 = n" using n8 by simp_all
    show "bit (to_bytes (from_bytes bs :: 'a word) ! i) n \<longleftrightarrow> bit (bs ! i) n"
      using i n8 lt assms(1)
      by (simp add: to_bytes_def bit_ucast_iff bit_drop_bit_eq bit_from_bytes dv)
  qed
qed


section \<open>Loads and stores\<close>

lemma store_bytes_apply:
  "store_bytes a bs m x = (if a \<le> x \<and> x < a + length bs then bs ! (x - a) else m x)"
proof (induction bs arbitrary: a m)
  case Nil
  then show ?case by auto
next
  case (Cons b bs)
  have "store_bytes a (b # bs) m x = store_bytes (Suc a) bs (m(a := b)) x"
    by simp
  also have "\<dots> = (if Suc a \<le> x \<and> x < Suc a + length bs then bs ! (x - Suc a)
                     else (m(a := b)) x)"
    by (rule Cons.IH)
  also have "\<dots> = (if a \<le> x \<and> x < a + length (b # bs) then (b # bs) ! (x - a)
                     else m x)"
    by (auto simp add: nth_Cons')
  finally show ?case .
qed

lemma load_bytes_eq: "load_bytes a n m = map (\<lambda>i. m (a + i)) [0..<n]"
proof (induction n arbitrary: a)
  case 0
  then show ?case by simp
next
  case (Suc n)
  have "[0..<Suc n] = 0 # map Suc [0..<n]"
    by (simp add: upt_conv_Cons map_Suc_upt del: upt_Suc)
  then show ?case by (simp add: Suc.IH comp_def del: upt_Suc)
qed

lemma load_store_same: "load_bytes a (length bs) (store_bytes a bs m) = bs"
  by (rule nth_equalityI) (simp_all add: load_bytes_eq store_bytes_apply)

lemma store_load_same: "store_bytes a (load_bytes a n m) m = m"
  by (rule ext) (auto simp add: store_bytes_apply load_bytes_eq)

lemma load_store_to_bytes:
  "load_bytes p (sizeof TYPE('a)) (store_bytes p (to_bytes (v::'a::len word)) m) = to_bytes v"
  using load_store_same [of p "to_bytes v" m] by (simp add: length_to_bytes)


section \<open>The macros unfolded\<close>

text \<open>A loop whose condition fails after the first pass runs its body once.\<close>

lemma do_while_once: "\<not> cond (body s) \<Longrightarrow> do_while body cond s = Some (body s)"
  by (subst do_while.simps) simp

lemma io_uring_barrier_eq:
  "io_uring_barrier s = emit (Asm \<lparr>template = [], clobbers = [Memory]\<rparr>) s"
  by (simp add: io_uring_barrier_def asm_volatile_def)

lemma io_uring_smp_store_release_c_eq:
  "io_uring_smp_store_release_c p v s = Some (IO_URING_WRITE_ONCE_c p v (io_uring_barrier s))"
  unfolding io_uring_smp_store_release_c_def by (rule do_while_once) simp

lemma io_uring_smp_load_acquire_c_unfold:
  "(io_uring_smp_load_acquire_c p s :: 'a::len word \<times> machine) =
     (from_bytes (load_bytes p (sizeof TYPE('a)) (mem s)),
      s\<lparr>trace := trace s @ [VolatileLoad p (sizeof TYPE('a)),
                               Asm \<lparr>template = [], clobbers = [Memory]\<rparr>]\<rparr>)"
  by (simp add: io_uring_smp_load_acquire_c_def IO_URING_READ_ONCE_c_def volatile_load_def
      io_uring_barrier_eq emit_def)

lemma trace_exec_insn: "trace (exec_insn i s) = trace s"
  by (cases i) (simp_all add: Let_def)

lemma trace_asm_volatile: "trace (asm_volatile a s) = trace s @ [Asm a]"
proof -
  have "trace (fold exec_insn is t) = trace t" for "is" t
    by (induction "is" arbitrary: t) (simp_all add: trace_exec_insn)
  then show ?thesis by (simp add: asm_volatile_def emit_def)
qed

text \<open>
  \<^verbatim>\<open>lock; addl $0, disp(%reg)\<close> reads four bytes, adds zero and writes the same four bytes
  back: memory is as before (the flags are not).
\<close>

lemma locked_add_zero_mem: "mem (exec_insn (LockAddl 0 disp r) s) = mem s"
proof -
  have "to_bytes (from_bytes (load_bytes ea 4 m) :: 32 word) = load_bytes ea 4 m" for ea m
    by (rule to_bytes_from_bytes) (simp_all add: sizeof_def load_bytes_eq)
  then show ?thesis
    by (simp add: Let_def store_load_same)
qed


section \<open>Release store and acquire load of the manual realization\<close>

text \<open>
  Claim C2. On the fallback path \<^verbatim>\<open>io_uring_smp_store_release(p, v)\<close> returns, for every
  location, value and machine state, after exactly two steps in this order: the asm
  statement with the empty template and the \<^verbatim>\<open>"memory"\<close> clobber (\<^verbatim>\<open>io_uring_barrier\<close>),
  then the volatile store of \<open>v\<close> at \<open>p\<close> (\<^verbatim>\<open>IO_URING_WRITE_ONCE\<close>). The two steps put no fence
  instruction into the instruction stream, the only change to memory is that store, and
  the stack pointer and the flags are as before.
\<close>

theorem io_uring_smp_store_release_c_steps:
  "\<exists>s'. io_uring_smp_store_release_c p v s = Some s'
     \<and> s' = IO_URING_WRITE_ONCE_c p v (io_uring_barrier s)
     \<and> trace s' = trace s @ [Asm \<lparr>template = [], clobbers = [Memory]\<rparr>,
                             VolatileStore p (to_bytes v)]
     \<and> concat (map fence_insns (drop (length (trace s)) (trace s'))) = []
     \<and> mem s' = store_bytes p (to_bytes v) (mem s)
     \<and> rsp s' = rsp s \<and> eflags s' = eflags s"
  by (simp add: io_uring_smp_store_release_c_eq io_uring_barrier_eq IO_URING_WRITE_ONCE_c_def
      volatile_store_def emit_def)

text \<open>
  The manual acquire load in one execution context: the relaxed read, then
  \<^verbatim>\<open>io_uring_barrier\<close>, an asm statement with an empty template and the \<^verbatim>\<open>"memory"\<close>
  clobber that emits no instruction; the value returned is that of the read, and memory,
  the stack pointer and the flags are as before. Whether this sequence orders the later
  accesses of the context as other contexts observe them is a matter of the processor's
  memory model, which is not part of the header.
\<close>

lemma io_uring_smp_load_acquire_c_trace:
  "fst (io_uring_smp_load_acquire_c p s :: 'a::len word \<times> machine) =
      fst (IO_URING_READ_ONCE_c p s :: 'a word \<times> machine)
   \<and> snd (io_uring_smp_load_acquire_c p s :: 'a word \<times> machine) =
      io_uring_barrier (snd (IO_URING_READ_ONCE_c p s :: 'a word \<times> machine))
   \<and> trace (snd (io_uring_smp_load_acquire_c p s :: 'a word \<times> machine)) =
      trace s @ [VolatileLoad p (sizeof TYPE('a)), Asm \<lparr>template = [], clobbers = [Memory]\<rparr>]
   \<and> fence_insns (Asm \<lparr>template = [], clobbers = [Memory]\<rparr>) = []
   \<and> fst (io_uring_smp_load_acquire_c p s :: 'a word \<times> machine) =
      from_bytes (load_bytes p (sizeof TYPE('a)) (mem s))
   \<and> mem (snd (io_uring_smp_load_acquire_c p s :: 'a word \<times> machine)) = mem s
   \<and> rsp (snd (io_uring_smp_load_acquire_c p s :: 'a word \<times> machine)) = rsp s
   \<and> eflags (snd (io_uring_smp_load_acquire_c p s :: 'a word \<times> machine)) = eflags s"
  by (simp add: io_uring_smp_load_acquire_c_unfold IO_URING_READ_ONCE_c_def volatile_load_def
      io_uring_barrier_eq emit_def)


section \<open>Relaxed accesses\<close>

text \<open>
  For a value of the word's type, a relaxed write followed by a relaxed read of the same
  word returns the value, on both realizations.
\<close>

lemma write_then_read_c:
  "fst (IO_URING_READ_ONCE_c var (IO_URING_WRITE_ONCE_c var v s)) = (v :: 'a::len word)"
  by (simp add: IO_URING_READ_ONCE_c_def IO_URING_WRITE_ONCE_c_def volatile_load_def
      volatile_store_def emit_def load_store_to_bytes from_bytes_to_bytes)


text \<open>
  Claim C4. In one execution context, \<^verbatim>\<open>IO_URING_WRITE_ONCE\<close> of a value \<open>v\<close> followed
  immediately by \<^verbatim>\<open>IO_URING_READ_ONCE\<close> of the same word should return \<open>v\<close>, for every word
  and every value, on both realizations. The C macro takes the width of its store from
  \<^verbatim>\<open>__typeof(val)\<close>, where \<^verbatim>\<open>IO_URING_READ_ONCE\<close> and the C++ templates take the type of the
  word. For a 64-bit word at address 16 whose bytes are all \<open>0xFF\<close>,
  \<^verbatim>\<open>IO_URING_WRITE_ONCE(word, 5)\<close> with the \<^verbatim>\<open>int\<close> constant 5 stores four bytes, and the read
  that follows returns \<open>0xFFFFFFFF00000005\<close>; with the value converted to the word's type
  first, the same macro returns 5.
\<close>

theorem IO_URING_WRITE_ONCE_c_int_over_u64:
  "fst (IO_URING_READ_ONCE_c 16
          (IO_URING_WRITE_ONCE_c 16 (5 :: 32 word) (machine0\<lparr>mem := (\<lambda>a. 255)\<rparr>))
        :: 64 word \<times> machine) = 0xFFFFFFFF00000005
   \<and> fst (IO_URING_READ_ONCE_c 16
          (IO_URING_WRITE_ONCE_c 16 (5 :: 64 word) (machine0\<lparr>mem := (\<lambda>a. 255)\<rparr>))
        :: 64 word \<times> machine) = 5"
proof -
  have "fst (IO_URING_READ_ONCE_c 16
          (IO_URING_WRITE_ONCE_c 16 (5 :: 32 word) (machine0\<lparr>mem := (\<lambda>a. 255)\<rparr>))
        :: 64 word \<times> machine) = 0xFFFFFFFF00000005"
    by (simp add: IO_URING_READ_ONCE_c_def IO_URING_WRITE_ONCE_c_def volatile_load_def
        volatile_store_def emit_def machine0_def sizeof_def to_bytes_def from_bytes_def
        load_bytes_eq store_bytes_apply upt_rec)
  then show ?thesis
    by (simp only: write_then_read_c simp_thms)
qed

text \<open>
  In the other direction the store is wider than the word: an \<^verbatim>\<open>int\<close> written over an
  8-bit word also overwrites the three bytes that follow it.
\<close>

lemma IO_URING_WRITE_ONCE_c_wide_value:
  "mem (IO_URING_WRITE_ONCE_c 16 (1 :: 32 word) (machine0\<lparr>mem := (\<lambda>a. 255)\<rparr>)) 17 = 0"
  by (simp add: IO_URING_WRITE_ONCE_c_def volatile_store_def emit_def machine0_def sizeof_def
      to_bytes_def store_bytes_apply upt_rec)







section \<open>The two realizations side by side\<close>

text \<open>
  Claim C5. The native-atomics realization and the manual realization offer the same four
  operations, and for every location, value (of the word's type) and machine state they
  return the same value and leave the same memory, so in particular the same contents of
  the shared word; the manual release store does return.
\<close>

theorem realizations_agree:
  "mem (IO_URING_WRITE_ONCE_c p v s) = mem (IO_URING_WRITE_ONCE_cxx p v s)
   \<and> fst (IO_URING_READ_ONCE_c p s :: 'a::len word \<times> machine) =
       fst (IO_URING_READ_ONCE_cxx p s :: 'a word \<times> machine)
   \<and> mem (snd (IO_URING_READ_ONCE_c p s :: 'a word \<times> machine)) =
       mem (snd (IO_URING_READ_ONCE_cxx p s :: 'a word \<times> machine))
   \<and> (\<exists>s'. io_uring_smp_store_release_c p (v :: 'a word) s = Some s'
          \<and> mem s' = mem (io_uring_smp_store_release_cxx p v s))
   \<and> fst (io_uring_smp_load_acquire_c p s :: 'a word \<times> machine) =
       fst (io_uring_smp_load_acquire_cxx p s :: 'a word \<times> machine)
   \<and> mem (snd (io_uring_smp_load_acquire_c p s :: 'a word \<times> machine)) =
       mem (snd (io_uring_smp_load_acquire_cxx p s :: 'a word \<times> machine))"
  by (simp add: io_uring_smp_store_release_c_eq io_uring_smp_load_acquire_c_unfold
      io_uring_barrier_eq IO_URING_WRITE_ONCE_c_def IO_URING_READ_ONCE_c_def
      volatile_store_def volatile_load_def
      IO_URING_WRITE_ONCE_cxx_def IO_URING_READ_ONCE_cxx_def
      io_uring_smp_store_release_cxx_def io_uring_smp_load_acquire_cxx_def
      atomic_store_explicit_def atomic_load_explicit_def emit_def)

text \<open>
  Claim C7. Every primitive is total and returns after a fixed number of steps, for every
  location, value and machine state: one step for the relaxed accesses, for the four
  operations of the native-atomics realization and for each fence, two steps for the manual
  release store and acquire load. The \<^verbatim>\<open>do ... while (0)\<close> of the manual release
  store leaves its loop after one pass. No operation has an error result.
\<close>

theorem primitives_total:
  "length (trace (IO_URING_WRITE_ONCE_c p (v :: 'a::len word) s)) = length (trace s) + 1
   \<and> length (trace (snd (IO_URING_READ_ONCE_c p s :: 'a word \<times> machine))) = length (trace s) + 1
   \<and> (\<exists>s'. io_uring_smp_store_release_c p v s = Some s'
          \<and> length (trace s') = length (trace s) + 2)
   \<and> length (trace (snd (io_uring_smp_load_acquire_c p s :: 'a word \<times> machine))) =
       length (trace s) + 2
   \<and> length (trace (IO_URING_WRITE_ONCE_cxx p v s)) = length (trace s) + 1
   \<and> length (trace (snd (IO_URING_READ_ONCE_cxx p s :: 'a word \<times> machine))) =
       length (trace s) + 1
   \<and> length (trace (io_uring_smp_store_release_cxx p v s)) = length (trace s) + 1
   \<and> length (trace (snd (io_uring_smp_load_acquire_cxx p s :: 'a word \<times> machine))) =
       length (trace s) + 1
   \<and> length (trace (io_uring_barrier s)) = length (trace s) + 1
   \<and> length (trace (io_uring_mb s)) = length (trace s) + 1
   \<and> length (trace (io_uring_rmb s)) = length (trace s) + 1
   \<and> length (trace (io_uring_wmb s)) = length (trace s) + 1
   \<and> length (trace (io_uring_smp_rmb s)) = length (trace s) + 1
   \<and> length (trace (io_uring_smp_wmb s)) = length (trace s) + 1
   \<and> length (trace (io_uring_smp_mb i386 s)) = length (trace s) + 1"
  by (simp add: io_uring_smp_store_release_c_eq io_uring_smp_load_acquire_c_unfold
      IO_URING_WRITE_ONCE_c_def IO_URING_READ_ONCE_c_def
      volatile_store_def volatile_load_def
      IO_URING_WRITE_ONCE_cxx_def IO_URING_READ_ONCE_cxx_def
      io_uring_smp_store_release_cxx_def io_uring_smp_load_acquire_cxx_def
      atomic_store_explicit_def atomic_load_explicit_def emit_def
      io_uring_barrier_def io_uring_mb_def io_uring_rmb_def io_uring_wmb_def
      io_uring_smp_rmb_def io_uring_smp_wmb_def io_uring_smp_mb_def trace_asm_volatile)


section \<open>Fences\<close>

text \<open>
  Claim C9. The full fence \<^verbatim>\<open>io_uring_smp_mb\<close> is one asm statement, a locked add of the
  constant 0 to a stack location (\<^verbatim>\<open>0(%esp)\<close> on i386, \<^verbatim>\<open>-132(%rsp)\<close> otherwise), and
  \<^verbatim>\<open>io_uring_mb\<close> is an \<^verbatim>\<open>mfence\<close>. Both leave every byte of memory, and the stack pointer,
  as they were, so a read of any word after the fence returns what it would have returned
  before it.
\<close>

theorem full_fence_frame:
  "trace (io_uring_smp_mb True s) =
      trace s @ [Asm \<lparr>template = [LockAddl 0 0 ESP], clobbers = [Memory, CC]\<rparr>]
   \<and> trace (io_uring_smp_mb False s) =
      trace s @ [Asm \<lparr>template = [LockAddl 0 (- 132) RSP], clobbers = [Memory, CC]\<rparr>]
   \<and> trace (io_uring_mb s) = trace s @ [Asm \<lparr>template = [Mfence], clobbers = [Memory]\<rparr>]
   \<and> mem (io_uring_smp_mb i386 s) = mem s
   \<and> mem (io_uring_mb s) = mem s
   \<and> rsp (io_uring_smp_mb i386 s) = rsp s
   \<and> rsp (io_uring_mb s) = rsp s
   \<and> fst (IO_URING_READ_ONCE_c p (io_uring_smp_mb i386 s)) =
       (fst (IO_URING_READ_ONCE_c p s) :: 'a::len word)
   \<and> fst (IO_URING_READ_ONCE_c p (io_uring_mb s)) =
       (fst (IO_URING_READ_ONCE_c p s) :: 'a word)"
proof -
  have m: "mem (io_uring_smp_mb i386 s) = mem s"
    by (simp add: io_uring_smp_mb_def asm_volatile_def locked_add_zero_mem emit_def
        del: exec_insn.simps(4))
  have f: "mem (io_uring_mb s) = mem s"
    by (simp add: io_uring_mb_def asm_volatile_def emit_def)
  have r: "rsp (io_uring_smp_mb i386 s) = rsp s" "rsp (io_uring_mb s) = rsp s"
    by (simp_all add: io_uring_smp_mb_def io_uring_mb_def asm_volatile_def emit_def Let_def)
  have t: "trace (io_uring_smp_mb True s) =
      trace s @ [Asm \<lparr>template = [LockAddl 0 0 ESP], clobbers = [Memory, CC]\<rparr>]"
    "trace (io_uring_smp_mb False s) =
      trace s @ [Asm \<lparr>template = [LockAddl 0 (- 132) RSP], clobbers = [Memory, CC]\<rparr>]"
    "trace (io_uring_mb s) = trace s @ [Asm \<lparr>template = [Mfence], clobbers = [Memory]\<rparr>]"
    by (simp_all add: io_uring_smp_mb_def io_uring_mb_def trace_asm_volatile)
  show ?thesis
    by (simp add: m f r t IO_URING_READ_ONCE_c_def volatile_load_def emit_def)
qed

text \<open>
  The fence is not the identity on the machine: the add sets the flags from its result,
  here the zero flag.
\<close>

lemma io_uring_smp_mb_rewrites_flags:
  "\<not> zf (eflags machine0) \<and> zf (eflags (io_uring_smp_mb False machine0))"
  by (simp add: machine0_def io_uring_smp_mb_def asm_volatile_def emit_def Let_def
      add_flags_def load_bytes_eq from_bytes_def upt_rec)

text \<open>
  Claim C10. On the manual realization \<^verbatim>\<open>io_uring_smp_rmb\<close> and \<^verbatim>\<open>io_uring_smp_wmb\<close> are
  each the compiler-only barrier \<^verbatim>\<open>io_uring_barrier\<close>: the same operation as each other and
  as \<^verbatim>\<open>io_uring_barrier\<close>, which logs one asm statement with an empty template, emits no
  fence instruction and leaves memory untouched.
\<close>

theorem smp_rmb_wmb_are_barrier:
  "io_uring_smp_rmb s = io_uring_barrier s
   \<and> io_uring_smp_wmb s = io_uring_barrier s
   \<and> io_uring_smp_rmb s = io_uring_smp_wmb s
   \<and> io_uring_barrier s = s\<lparr>trace := trace s @ [Asm \<lparr>template = [], clobbers = [Memory]\<rparr>]\<rparr>
   \<and> fence_insns (Asm \<lparr>template = [], clobbers = [Memory]\<rparr>) = []
   \<and> mem (io_uring_smp_rmb s) = mem s \<and> mem (io_uring_smp_wmb s) = mem s"
  by (simp add: io_uring_smp_rmb_def io_uring_smp_wmb_def io_uring_barrier_eq emit_def)

end
